theory Spec2Isabelle
  imports Complex_Main "HOL-Library.Char_ord" "HOL-Library.List_Lexorder" "HOL-Library.AList"
    "HOL-Library.Multiset"
begin

section \<open>Data model\<close>

text \<open>
  Identities, socket ids and record ids are JavaScript strings. The order on strings
  (\<open>List_Lexorder\<close> over \<open>Char_ord\<close>) is the code-unit order that
  \<^verbatim>\<open>Array.prototype.sort\<close> uses when it is called without a comparator.
  Timestamps are milliseconds, a natural number.
\<close>

type_synonym identity = string
type_synonym socket_id = string

text \<open>A payload field that the client may leave out is \<open>None\<close> (\<^verbatim>\<open>undefined\<close>).\<close>

definition truthy :: "string option \<Rightarrow> bool" where
  "truthy v = (case v of None \<Rightarrow> False | Some str \<Rightarrow> str \<noteq> [])"

subsection \<open>The relational store (prisma schema, migration.sql)\<close>

record user =
  u_id :: identity
  u_email :: string
  u_name :: "string option"
  u_image :: "string option"
  u_password :: "string option"
  u_provider :: string

text \<open>The columns picked by \<^verbatim>\<open>select: {id, name, email, image, provider}\<close>.\<close>

record user_select =
  us_id :: identity
  us_name :: "string option"
  us_email :: string
  us_image :: "string option"
  us_provider :: string

record chat_session =
  cs_id :: string
  user1Id :: identity
  user2Id :: identity
  isAiChat :: bool
  cs_createdAt :: nat
  updatedAt :: nat

record message =
  m_id :: string
  m_content :: string
  senderId :: identity
  recipientId :: identity
  m_sessionId :: string
  isAiMessage :: bool
  createdAt :: nat

record database =
  users :: "user list"
  chatSessions :: "chat_session list"
  messages :: "message list"

text \<open>
  What a call inside a handler can throw: the errors of the store that the handlers can
  meet, and the \<^verbatim>\<open>TypeError\<close> of JavaScript.
\<close>

datatype thrown =
  P2002   \<comment> \<open>unique constraint failed\<close>
| P2003   \<comment> \<open>foreign key constraint failed\<close>
| P2025   \<comment> \<open>record to update not found\<close>
| Validation   \<comment> \<open>the query arguments were rejected\<close>
| Invalid_text   \<comment> \<open>a text value holds the code point U+0000\<close>
| TypeError   \<comment> \<open>a property of \<^verbatim>\<open>undefined\<close> or \<^verbatim>\<open>null\<close> was read\<close>

text \<open>
  What the store itself supplies when a row is created: the \<^verbatim>\<open>cuid()\<close> defaults of the
  two id columns and the clock readings (\<^verbatim>\<open>CURRENT_TIMESTAMP\<close>, \<^verbatim>\<open>new Date()\<close>).
\<close>

record generated =
  session_cuid :: string
  message_cuid :: string
  session_time :: nat
  message_time :: nat
  update_time :: nat

definition select_user :: "user \<Rightarrow> user_select" where
  "select_user u = \<lparr>us_id = u_id u, us_name = u_name u, us_email = u_email u,
     us_image = u_image u, us_provider = u_provider u\<rparr>"

definition user_findUnique :: "identity \<Rightarrow> database \<Rightarrow> user option" where
  "user_findUnique i d = find (\<lambda>u. u_id u = i) (users d)"

definition chatSession_findUnique_id :: "string \<Rightarrow> database \<Rightarrow> chat_session option" where
  "chatSession_findUnique_id i d = find (\<lambda>c. cs_id c = i) (chatSessions d)"

definition chatSession_findUnique_pair ::
  "identity \<Rightarrow> identity \<Rightarrow> database \<Rightarrow> chat_session option" where
  "chatSession_findUnique_pair a b d =
     find (\<lambda>c. user1Id c = a \<and> user2Id c = b) (chatSessions d)"

text \<open>
  \<^verbatim>\<open>chatSession.create({data: {user1Id, user2Id}})\<close>: the primary key and the unique index
  \<^verbatim>\<open>ChatSession_user1Id_user2Id_key\<close> are checked when the row is inserted, the two
  foreign keys to \<^verbatim>\<open>User\<close> after it.
\<close>

definition chatSession_create ::
  "generated \<Rightarrow> identity \<Rightarrow> identity \<Rightarrow> database \<Rightarrow> thrown + chat_session \<times> database" where
  "chatSession_create gen a b d =
     (if chatSession_findUnique_id (session_cuid gen) d \<noteq> None
         \<or> chatSession_findUnique_pair a b d \<noteq> None then Inl P2002
      else if user_findUnique a d = None \<or> user_findUnique b d = None then Inl P2003
      else
        (let c = \<lparr>cs_id = session_cuid gen, user1Id = a, user2Id = b, isAiChat = False,
                  cs_createdAt = session_time gen, updatedAt = session_time gen\<rparr>
         in Inr (c, d\<lparr>chatSessions := chatSessions d @ [c]\<rparr>)))"

text \<open>\<^verbatim>\<open>chatSession.update({where: {id}, data: {updatedAt: new Date()}})\<close>.\<close>

definition chatSession_update ::
  "generated \<Rightarrow> string \<Rightarrow> database \<Rightarrow> thrown + database" where
  "chatSession_update gen i d =
     (if chatSession_findUnique_id i d = None then Inl P2025
      else Inr (d\<lparr>chatSessions :=
              map (\<lambda>c. if cs_id c = i then c\<lparr>updatedAt := update_time gen\<rparr> else c)
                (chatSessions d)\<rparr>))"

text \<open>
  \<^verbatim>\<open>message.create({data: {content, senderId, recipientId, sessionId}, include: {sender,
  recipient}})\<close>: the new row together with the two joined users. The store rejects a
  content that holds the code point U+0000.
\<close>

definition message_create ::
  "generated \<Rightarrow> string \<Rightarrow> identity \<Rightarrow> identity \<Rightarrow> string \<Rightarrow> database
     \<Rightarrow> thrown + (message \<times> user_select \<times> user_select) \<times> database" where
  "message_create gen content sender recipient sess d =
     (if CHR 0x00 \<in> set content then Inl Invalid_text
      else if find (\<lambda>m. m_id m = message_cuid gen) (messages d) \<noteq> None then Inl P2002
      else
        (case (user_findUnique sender d, user_findUnique recipient d,
               chatSession_findUnique_id sess d) of
           (Some su, Some ru, Some c) \<Rightarrow>
             (let m = \<lparr>m_id = message_cuid gen, m_content = content, senderId = sender,
                       recipientId = recipient, m_sessionId = sess, isAiMessage = False,
                       createdAt = message_time gen\<rparr>
              in Inr ((m, select_user su, select_user ru), d\<lparr>messages := messages d @ [m]\<rparr>))
         | _ \<Rightarrow> Inl P2003))"

subsection \<open>The relay process (server/websocket.ts)\<close>

text \<open>
  \<open>onlineUsers\<close> is the module-level \<^verbatim>\<open>Map<userId, socketId>\<close>, kept in insertion order
  as a JavaScript \<^verbatim>\<open>Map\<close> is: \<^verbatim>\<open>set\<close> on a key already present replaces the value
  in place, \<^verbatim>\<open>set\<close> on a new key appends (\<open>AList.update\<close>).
  \<open>sockets\<close> are the connections the socket.io namespace currently holds, the ones an
  \<^verbatim>\<open>io.emit\<close> reaches.
\<close>

record server =
  onlineUsers :: "(identity \<times> socket_id) list"
  sockets :: "socket_id list"
  store :: database

record message_data =
  md_id :: string
  md_content :: string
  md_senderId :: identity
  md_recipientId :: identity
  md_sessionId :: string
  md_createdAt :: nat
  md_sender :: user_select
  md_recipient :: user_select

datatype event =
  User_online identity
| User_offline identity
| Users_online "identity list"
| Message_error string "thrown option"
| Message_receive message_data
| Message_sent message_data

datatype target =
  Broadcast             \<comment> \<open>\<^verbatim>\<open>io.emit\<close>\<close>
| Room socket_id      \<comment> \<open>\<^verbatim>\<open>io.to(socketId).emit\<close>\<close>
| Socket socket_id    \<comment> \<open>\<^verbatim>\<open>socket.emit\<close>\<close>

type_synonym emit = "target \<times> event"

text \<open>
  The fan-out of the socket.io library, as its documentation gives it:
  \<^verbatim>\<open>io.emit\<close> reaches every connection of the namespace, \<^verbatim>\<open>io.to(id)\<close> the connection
  whose id is \<open>id\<close> if the namespace still holds it, \<^verbatim>\<open>socket.emit\<close> the socket itself.
\<close>

definition receivers :: "server \<Rightarrow> target \<Rightarrow> socket_id list" where
  "receivers s t =
     (case t of Broadcast \<Rightarrow> sockets s
      | Room r \<Rightarrow> filter (\<lambda>c. c = r) (sockets s)
      | Socket c \<Rightarrow> [c])"

text \<open>
  socket.io adds an authenticated socket to the namespace before
  it fires \<^verbatim>\<open>connection\<close>, and takes it out before it fires \<^verbatim>\<open>disconnect\<close>.
\<close>

definition admit :: "socket_id \<Rightarrow> server \<Rightarrow> server" where
  "admit sock s = s\<lparr>sockets := sockets s @ [sock]\<rparr>"

definition release :: "socket_id \<Rightarrow> server \<Rightarrow> server" where
  "release sock s = s\<lparr>sockets := filter (\<lambda>c. c \<noteq> sock) (sockets s)\<rparr>"

text \<open>The body of \<^verbatim>\<open>io.on("connection", ...)\<close> up to the handler registrations.\<close>

definition connection :: "socket_id \<Rightarrow> identity \<Rightarrow> server \<Rightarrow> server \<times> emit list" where
  "connection sock userId s =
     (let s1 = s\<lparr>onlineUsers := AList.update userId sock (onlineUsers s)\<rparr>
      in (s1, [(Broadcast, User_online userId),
               (Socket sock, Users_online (map fst (onlineUsers s1)))]))"

text \<open>\<^verbatim>\<open>socket.on("status:request", ...)\<close>.\<close>

definition status_request :: "socket_id \<Rightarrow> server \<Rightarrow> server \<times> emit list" where
  "status_request sock s = (s, [(Socket sock, Users_online (map fst (onlineUsers s)))])"

text \<open>\<^verbatim>\<open>socket.on("disconnect", ...)\<close>; \<open>userId\<close> is the identity the socket authenticated as.\<close>

definition disconnect :: "socket_id \<Rightarrow> identity \<Rightarrow> server \<Rightarrow> server \<times> emit list" where
  "disconnect sock userId s =
     (s\<lparr>onlineUsers := AList.delete userId (onlineUsers s)\<rparr>, [(Broadcast, User_offline userId)])"

text \<open>The gateway's events as they arrive at the process, one task each.\<close>

datatype gateway_event =
  Connect socket_id identity
| Disconnect socket_id identity
| Status_request socket_id

fun gateway_step :: "gateway_event \<Rightarrow> server \<Rightarrow> server \<times> emit list" where
  "gateway_step (Connect sock userId) s = connection sock userId (admit sock s)"
| "gateway_step (Disconnect sock userId) s = disconnect sock userId (release sock s)"
| "gateway_step (Status_request sock) s = status_request sock s"

fun gateway_run :: "gateway_event list \<Rightarrow> server \<Rightarrow> server" where
  "gateway_run [] s = s"
| "gateway_run (e # es) s = gateway_run es (fst (gateway_step e s))"

definition empty_database :: database where
  "empty_database = \<lparr>users = [], chatSessions = [], messages = []\<rparr>"

definition fresh_server :: server where
  "fresh_server = \<lparr>onlineUsers = [], sockets = [], store = empty_database\<rparr>"

definition is_disconnect_of :: "identity \<Rightarrow> gateway_event \<Rightarrow> bool" where
  "is_disconnect_of u e = (case e of Disconnect c v \<Rightarrow> v = u | _ \<Rightarrow> False)"

definition is_online :: "identity \<Rightarrow> server \<Rightarrow> bool" where
  "is_online u s = (map_of (onlineUsers s) u \<noteq> None)"

subsection \<open>The message router (server/websocket.ts, \<^verbatim>\<open>message:send\<close>)\<close>

record send_payload =
  p_recipientId :: "string option"
  p_content :: "string option"
  p_sessionId :: "string option"

definition the_string :: "string option \<Rightarrow> string" where
  "the_string v = (case v of None \<Rightarrow> [] | Some str \<Rightarrow> str)"

text \<open>\<^verbatim>\<open>[a, b].sort()\<close> on two strings.\<close>

definition sort_pair :: "identity \<Rightarrow> identity \<Rightarrow> identity \<times> identity" where
  "sort_pair a b = (if b < a then (b, a) else (a, b))"

text \<open>
  A handler is one task. At each \<^verbatim>\<open>await\<close> it is suspended and the tasks of other
  connections run before the awaited call takes effect: \<open>others k\<close> is what they do to
  the process and to the store at the handler's suspension point \<open>k\<close>. \<open>quiet\<close> is
  the run in which nothing else happens.
\<close>

type_synonym interleaving = "nat \<Rightarrow> server \<Rightarrow> server"

definition quiet :: "nat \<Rightarrow> 'a \<Rightarrow> 'a" where
  "quiet k s = s"

text \<open>
  Lines 202 to 228: the session of the send. The result is the exception a store call
  threw, or the value of \<^verbatim>\<open>session\<close> (\<open>None\<close> is \<^verbatim>\<open>null\<close>), each with the state the
  process is in at that point.
\<close>

definition find_or_create_session ::
  "interleaving \<Rightarrow> generated \<Rightarrow> identity \<Rightarrow> identity \<Rightarrow> string option \<Rightarrow> server
     \<Rightarrow> (thrown \<times> server) + (chat_session option \<times> server)" where
  "find_or_create_session others gen userId recipient sessionId s =
     (let s0 = others 0 s in
      if truthy sessionId then
        Inr (chatSession_findUnique_id (the_string sessionId) (store s0), s0)
      else
        (let (u1, u2) = sort_pair userId recipient in
         case chatSession_findUnique_pair u1 u2 (store s0) of
           Some c \<Rightarrow> Inr (Some c, s0)
         | None \<Rightarrow>
             (let s1 = others 1 s0 in
              case chatSession_create gen u1 u2 (store s1) of
                Inl e \<Rightarrow> Inl (e, s1)
              | Inr (c, d) \<Rightarrow> Inr (Some c, s1\<lparr>store := d\<rparr>))))"

definition messageData :: "message \<Rightarrow> user_select \<Rightarrow> user_select \<Rightarrow> message_data" where
  "messageData m su ru =
     \<lparr>md_id = m_id m, md_content = m_content m, md_senderId = senderId m,
      md_recipientId = recipientId m, md_sessionId = m_sessionId m,
      md_createdAt = createdAt m, md_sender = su, md_recipient = ru\<rparr>"

text \<open>Lines 282 to 289: the push to the recipient and the confirmation to the sender.\<close>

definition deliver :: "socket_id \<Rightarrow> identity \<Rightarrow> message_data \<Rightarrow> server \<Rightarrow> emit list" where
  "deliver sock recipient md s =
     (let recipientSocketId = map_of (onlineUsers s) recipient in
      (if truthy recipientSocketId
       then [(Room (the_string recipientSocketId), Message_receive md)] else [])
      @ [(Socket sock, Message_sent md)])"

text \<open>The \<^verbatim>\<open>catch\<close> block of the handler.\<close>

definition send_failed :: "socket_id \<Rightarrow> thrown \<Rightarrow> emit list" where
  "send_failed sock e = [(Socket sock, Message_error ''Failed to send message'' (Some e))]"

text \<open>
  \<^verbatim>\<open>socket.on("message:send", ...)\<close>. The payload is what the client sent: \<open>None\<close> is a
  request without a payload object (\<^verbatim>\<open>undefined\<close> or \<^verbatim>\<open>null\<close>), on which the destructuring
  of line 192 throws inside the \<^verbatim>\<open>try\<close>; a field that the object lacks is \<open>None\<close>.
\<close>

definition message_send ::
  "interleaving \<Rightarrow> generated \<Rightarrow> socket_id \<Rightarrow> identity \<Rightarrow> send_payload option \<Rightarrow> server
     \<Rightarrow> server \<times> emit list" where
  "message_send others gen sock userId payload s =
     (case payload of
        None \<Rightarrow> (s, send_failed sock TypeError)
      | Some data \<Rightarrow>
          if \<not> truthy (p_recipientId data) \<or> \<not> truthy (p_content data) then
            (s, [(Socket sock,
                  Message_error ''Missing required fields: recipientId and content'' None)])
          else
            (let recipient = the_string (p_recipientId data);
                 content = the_string (p_content data)
             in case find_or_create_session others gen userId recipient (p_sessionId data) s of
               Inl (e, s1) \<Rightarrow> (s1, send_failed sock e)
             | Inr (None, s1) \<Rightarrow>
                 (s1, [(Socket sock, Message_error ''Failed to create or find session'' None)])
             | Inr (Some session, s1) \<Rightarrow>
                 (let s2 = others 2 s1 in
                  case message_create gen content userId recipient (cs_id session) (store s2) of
                    Inl e \<Rightarrow> (s2, send_failed sock e)
                  | Inr ((m, su, ru), d) \<Rightarrow>
                      (let s3 = others 3 (s2\<lparr>store := d\<rparr>) in
                       case chatSession_update gen (cs_id session) (store s3) of
                         Inl e \<Rightarrow> (s3, send_failed sock e)
                       | Inr d' \<Rightarrow>
                           (let s4 = others 4 (s3\<lparr>store := d'\<rparr>)
                            in (s4, deliver sock recipient (messageData m su ru) s4))))))"

text \<open>The invariant of a message row: both ends are participants of the row's session.\<close>

definition participant :: "identity \<Rightarrow> chat_session \<Rightarrow> bool" where
  "participant u c = (user1Id c = u \<or> user2Id c = u)"

definition message_in_session :: "database \<Rightarrow> message \<Rightarrow> bool" where
  "message_in_session d m =
     (case chatSession_findUnique_id (m_sessionId m) d of
        None \<Rightarrow> False
      | Some c \<Rightarrow> participant (senderId m) c \<and> participant (recipientId m) c)"

subsection \<open>The HTTP routes (app/api)\<close>

text \<open>
  A route handler answers with a status and a JSON body. \<open>auth\<close> is the identity of
  \<^verbatim>\<open>session.user\<close>, \<open>None\<close> when nobody is signed in. Of a session the body carries the
  row; the joined users and messages of the two \<^verbatim>\<open>/api/sessions\<close> POST answers are left out.
\<close>

record pagination =
  pg_page :: int
  pg_limit :: int
  pg_total :: nat
  pg_totalPages :: "int option"   \<comment> \<open>\<open>None\<close>: not finite, \<^verbatim>\<open>null\<close> in JSON\<close>

datatype body =
  Error string
| Session chat_session
| Session_page chat_session "message list" pagination
| Created_message message user_select user_select

type_synonym response = "nat \<times> body"

type_synonym store_interleaving = "nat \<Rightarrow> database \<Rightarrow> database"

text \<open>app/api/sessions/route.ts, \<^verbatim>\<open>POST\<close>: fetch or create the session with another user.\<close>

definition sessions_POST ::
  "store_interleaving \<Rightarrow> generated \<Rightarrow> identity option \<Rightarrow> string option \<Rightarrow> database
     \<Rightarrow> response \<times> database" where
  "sessions_POST others gen auth otherUserId d =
     (case auth of
        None \<Rightarrow> ((401, Error ''Unauthorized''), d)
      | Some currentUserId \<Rightarrow>
          if \<not> truthy otherUserId then ((400, Error ''otherUserId is required''), d)
          else if currentUserId = the_string otherUserId then
            ((400, Error ''Cannot create session with yourself''), d)
          else
            (let d0 = others 0 d in
             case user_findUnique currentUserId d0 of
               None \<Rightarrow> ((404, Error ''Current user not found in database''), d0)
             | Some currentUser \<Rightarrow>
                 (let d1 = others 1 d0 in
                  case user_findUnique (the_string otherUserId) d1 of
                    None \<Rightarrow> ((404, Error ''User not found''), d1)
                  | Some otherUser \<Rightarrow>
                      (let (u1, u2) = sort_pair currentUserId (the_string otherUserId);
                           d2 = others 2 d1
                       in case chatSession_findUnique_pair u1 u2 d2 of
                         Some c \<Rightarrow> ((200, Session c), d2)
                       | None \<Rightarrow>
                           (let d3 = others 3 d2 in
                            case chatSession_create gen u1 u2 d3 of
                              Inr (c, d4) \<Rightarrow> ((200, Session c), d4)
                            | Inl e \<Rightarrow>
                                if e = P2002 then
                                  (let d5 = others 4 d3 in
                                   case chatSession_findUnique_pair u1 u2 d5 of
                                     Some c \<Rightarrow> ((200, Session c), d5)
                                   | None \<Rightarrow>
                                       ((500, Error ''Failed to create/find chat session''), d5))
                                else ((500, Error ''Failed to create/find chat session''), d3))))))"

text \<open>
  The nested \<^verbatim>\<open>messages: {orderBy: {createdAt: "asc"}, skip, take}\<close> of prisma. Rows with
  equal timestamps stay in insertion order. \<^verbatim>\<open>skip\<close> and \<^verbatim>\<open>take\<close> are 64-bit signed
  integers to prisma: a value that does not fit is rejected, and so is a negative
  \<^verbatim>\<open>skip\<close>. A negative \<^verbatim>\<open>take\<close> counts from the end of the order. What the query engine
  does with a \<^verbatim>\<open>skip\<close> or \<^verbatim>\<open>take\<close> that fits 64 bits but not 32 is not decided by this
  repository: it is the parameter \<open>wide\<close>.
\<close>

definition fits32 :: "int \<Rightarrow> bool" where
  "fits32 n = (- (2 ^ 31) \<le> n \<and> n < 2 ^ 31)"

definition fits64 :: "int \<Rightarrow> bool" where
  "fits64 n = (- (2 ^ 63) \<le> n \<and> n < 2 ^ 63)"

type_synonym 'a wide = "int \<Rightarrow> int \<Rightarrow> 'a list \<Rightarrow> thrown + 'a list"

definition session_messages :: "string \<Rightarrow> database \<Rightarrow> message list" where
  "session_messages i d = sort_key createdAt (filter (\<lambda>m. m_sessionId m = i) (messages d))"

definition skip_take :: "'a wide \<Rightarrow> int \<Rightarrow> int \<Rightarrow> 'a list \<Rightarrow> thrown + 'a list" where
  "skip_take wide skip limit xs =
     (if skip < 0 \<or> \<not> fits64 skip \<or> \<not> fits64 limit then Inl Validation
      else if \<not> fits32 skip \<or> \<not> fits32 limit then wide skip limit xs
      else if 0 \<le> limit then Inr (take (nat limit) (drop (nat skip) xs))
      else Inr (rev (take (nat (- limit)) (drop (nat skip) (rev xs)))))"

definition message_count :: "string \<Rightarrow> database \<Rightarrow> nat" where
  "message_count i d = length (filter (\<lambda>m. m_sessionId m = i) (messages d))"

text \<open>\<^verbatim>\<open>Math.ceil(totalMessages / limit)\<close>.\<close>

definition totalPages :: "nat \<Rightarrow> int \<Rightarrow> int option" where
  "totalPages n limit =
     (if limit = 0 then None else Some \<lceil>real n / real_of_int limit\<rceil>)"

text \<open>
  app/api/sessions/[id]/route.ts, \<^verbatim>\<open>GET\<close>. \<open>page_q\<close> and \<open>limit_q\<close> are the integers
  \<^verbatim>\<open>parseInt\<close> reads from the query string, \<open>None\<close> for a parameter that is absent or empty.
  The quotient of \<^verbatim>\<open>Math.ceil\<close> is a double; for a row count below \<open>2 ^ 53\<close> its ceiling is
  the ceiling of the exact quotient.
\<close>

definition session_GET ::
  "message wide \<Rightarrow> store_interleaving \<Rightarrow> identity option \<Rightarrow> string \<Rightarrow> int option
     \<Rightarrow> int option \<Rightarrow> database \<Rightarrow> response" where
  "session_GET wide others auth i page_q limit_q d =
     (case auth of
        None \<Rightarrow> (401, Error ''Unauthorized'')
      | Some userId \<Rightarrow>
          (let page = (case page_q of None \<Rightarrow> 1 | Some p \<Rightarrow> p);
               limit = (case limit_q of None \<Rightarrow> 50 | Some l \<Rightarrow> l);
               skip = (page - 1) * limit;
               d0 = others 0 d
           in case skip_take wide skip limit (session_messages i d0) of
             Inl e \<Rightarrow> (500, Error ''Failed to fetch chat session'')
           | Inr msgs \<Rightarrow>
               (case chatSession_findUnique_id i d0 of
                  None \<Rightarrow> (404, Error ''Chat session not found'')
                | Some chatSession \<Rightarrow>
                    if user1Id chatSession \<noteq> userId \<and> user2Id chatSession \<noteq> userId then
                      (403, Error ''Forbidden'')
                    else
                      (let d1 = others 1 d0;
                           totalMessages = message_count i d1
                       in (200, Session_page chatSession msgs
                             \<lparr>pg_page = page, pg_limit = limit, pg_total = totalMessages,
                              pg_totalPages = totalPages totalMessages limit\<rparr>)))))"

text \<open>app/api/messages/route.ts, \<^verbatim>\<open>POST\<close>: the send of the HTTP path.\<close>

definition messages_POST ::
  "store_interleaving \<Rightarrow> generated \<Rightarrow> identity option \<Rightarrow> send_payload \<Rightarrow> database
     \<Rightarrow> response \<times> database" where
  "messages_POST others gen auth data d =
     (case auth of
        None \<Rightarrow> ((401, Error ''Unauthorized''), d)
      | Some sender \<Rightarrow>
          if \<not> truthy (p_content data) \<or> \<not> truthy (p_recipientId data)
             \<or> \<not> truthy (p_sessionId data) then
            ((400, Error ''content, recipientId, and sessionId are required''), d)
          else
            (let content = the_string (p_content data);
                 recipient = the_string (p_recipientId data);
                 sessionId = the_string (p_sessionId data);
                 d0 = others 0 d
             in case chatSession_findUnique_id sessionId d0 of
               None \<Rightarrow> ((404, Error ''Chat session not found''), d0)
             | Some chatSession \<Rightarrow>
                 if user1Id chatSession \<noteq> sender \<and> user2Id chatSession \<noteq> sender then
                   ((403, Error ''Forbidden''), d0)
                 else if user1Id chatSession \<noteq> recipient \<and> user2Id chatSession \<noteq> recipient then
                   ((400, Error ''Recipient is not part of this session''), d0)
                 else
                   (let d1 = others 1 d0 in
                    case message_create gen content sender recipient sessionId d1 of
                      Inl e \<Rightarrow> ((500, Error ''Failed to create message''), d1)
                    | Inr ((m, su, ru), d2) \<Rightarrow>
                        (let d3 = others 2 d2 in
                         case chatSession_update gen sessionId d3 of
                           Inl e \<Rightarrow> ((500, Error ''Failed to create message''), d3)
                         | Inr d4 \<Rightarrow> ((201, Created_message m su ru), d4)))))"

subsection \<open>A store with the seeded users\<close>

definition alice :: user where
  "alice = \<lparr>u_id = ''alice'', u_email = ''alice.london@example.com'',
     u_name = Some ''Alice Johnson'', u_image = None, u_password = None, u_provider = ''jwt''\<rparr>"

definition bob :: user where
  "bob = \<lparr>u_id = ''bob'', u_email = ''bob.sweden@example.com'',
     u_name = Some ''Bob Andersson'', u_image = None, u_password = None, u_provider = ''jwt''\<rparr>"

definition charlie :: user where
  "charlie = \<lparr>u_id = ''charlie'', u_email = ''charlie.us@example.com'',
     u_name = Some ''Charlie Williams'', u_image = None, u_password = None, u_provider = ''jwt''\<rparr>"

definition seeded :: database where
  "seeded = \<lparr>users = [alice, bob, charlie], chatSessions = [], messages = []\<rparr>"

definition gen1 :: generated where
  "gen1 = \<lparr>session_cuid = ''s1'', message_cuid = ''m1'', session_time = 10,
     message_time = 11, update_time = 12\<rparr>"

definition gen2 :: generated where
  "gen2 = \<lparr>session_cuid = ''s2'', message_cuid = ''m2'', session_time = 20,
     message_time = 21, update_time = 22\<rparr>"

definition alice_online :: server where
  "alice_online =
     fst (gateway_step (Connect ''c1'' ''alice'') (fresh_server\<lparr>store := seeded\<rparr>))"

definition bob_charlie :: chat_session where
  "bob_charlie = \<lparr>cs_id = ''s1'', user1Id = ''bob'', user2Id = ''charlie'', isAiChat = False,
     cs_createdAt = 10, updatedAt = 10\<rparr>"

definition alice_bob :: chat_session where
  "alice_bob = \<lparr>cs_id = ''s1'', user1Id = ''alice'', user2Id = ''bob'', isAiChat = False,
     cs_createdAt = 10, updatedAt = 10\<rparr>"

definition said :: "string \<Rightarrow> string \<Rightarrow> identity \<Rightarrow> identity \<Rightarrow> nat \<Rightarrow> message" where
  "said i content sender recipient t =
     \<lparr>m_id = i, m_content = content, senderId = sender, recipientId = recipient,
      m_sessionId = ''s1'', isAiMessage = False, createdAt = t\<rparr>"

text \<open>
  Three messages of the session \<open>s1\<close>, stored out of the order of their timestamps, and
  one message of another session among them.
\<close>

definition chatty :: database where
  "chatty = seeded\<lparr>chatSessions := [alice_bob, bob_charlie\<lparr>cs_id := ''s0''\<rparr>],
     messages := [said ''m3'' ''c'' ''alice'' ''bob'' 30, said ''m1'' ''a'' ''alice'' ''bob'' 11,
                  (said ''m0'' ''x'' ''bob'' ''charlie'' 15)\<lparr>m_sessionId := ''s0''\<rparr>,
                  said ''m2'' ''b'' ''bob'' ''alice'' 20]\<rparr>"

text \<open>One engine among those the parameter \<open>wide\<close> stands for: it returns no row.\<close>

definition wide_empty :: "'a wide" where
  "wide_empty skip limit xs = Inr []"

text \<open>
  Another first-contact request of the same pair, whose \<^verbatim>\<open>chatSession.create\<close> takes effect
  while the handler is suspended between its lookup and its own create.
\<close>

definition racing :: interleaving where
  "racing k s =
     (if k = 1 then
        (case chatSession_create gen2 ''alice'' ''bob'' (store s) of
           Inl e \<Rightarrow> s
         | Inr (c, d) \<Rightarrow> s\<lparr>store := d\<rparr>)
      else s)"

definition page_of :: "response \<Rightarrow> message list" where
  "page_of r = (case snd r of Session_page c msgs pg \<Rightarrow> msgs | _ \<Rightarrow> [])"

definition pagination_of :: "response \<Rightarrow> pagination option" where
  "pagination_of r = (case snd r of Session_page c msgs pg \<Rightarrow> Some pg | _ \<Rightarrow> None)"

section \<open>Presence registry\<close>

lemma is_online_keys: "is_online u s = (u \<in> set (map fst (onlineUsers s)))"
  by (simp add: is_online_def map_of_eq_None_iff)

lemma gateway_step_keeps_online:
  "is_online u s \<Longrightarrow> \<not> is_disconnect_of u e \<Longrightarrow> is_online u (fst (gateway_step e s))"
  by (cases e)
     (simp_all add: is_online_def is_disconnect_of_def connection_def admit_def disconnect_def
        release_def status_request_def update_conv' delete_conv' Let_def)

lemma gateway_run_keeps_online:
  "is_online u s \<Longrightarrow> list_all (\<lambda>e. \<not> is_disconnect_of u e) es
     \<Longrightarrow> is_online u (gateway_run es s)"
  by (induction es arbitrary: s) (simp_all add: gateway_step_keeps_online)

lemma connection_online: "is_online u (fst (gateway_step (Connect sock u) s))"
  by (simp add: is_online_def connection_def admit_def update_conv' Let_def)

text \<open>
  C1, as the claim states it, fails: \<open>u\<close> connects on \<open>c1\<close> and then on \<open>c2\<close>, so the
  registry holds \<open>c2\<close> for \<open>u\<close>; the disconnect of the superseded \<open>c1\<close> then removes the
  entry of \<open>u\<close> all the same.
\<close>

theorem disconnect_stale_counterexample:
  "map_of (onlineUsers (gateway_run [Connect ''c1'' ''u'', Connect ''c2'' ''u''] fresh_server)) ''u''
     = Some ''c2''
   \<and> ''c1'' \<noteq> ''c2''
   \<and> map_of (onlineUsers (fst (gateway_step (Disconnect ''c1'' ''u'')
        (gateway_run [Connect ''c1'' ''u'', Connect ''c2'' ''u''] fresh_server)))) ''u'' = None"
  by (simp add: fresh_server_def connection_def admit_def disconnect_def release_def Let_def)

text \<open>
  C1, amended: the disconnect of any connection that authenticated as \<open>u\<close>, whether or
  not it is the connection on record, removes the registry entry of \<open>u\<close> and of nobody
  else, and is followed by one offline-presence broadcast for \<open>u\<close>.
\<close>

theorem disconnect_removes_identity:
  "map_of (onlineUsers (fst (gateway_step (Disconnect sock u) s)))
     = (map_of (onlineUsers s))(u := None)
   \<and> snd (gateway_step (Disconnect sock u) s) = [(Broadcast, User_offline u)]"
  by (simp add: disconnect_def release_def delete_conv')

text \<open>
  C10, as the claim states it, fails for the later \<^verbatim>\<open>status:request\<close> replies: \<open>u\<close>
  connects on \<open>c1\<close> and on \<open>c2\<close>, \<open>c1\<close> disconnects, and the reply to a request of the
  live connection \<open>c2\<close> is the empty list.
\<close>

theorem status_reply_counterexample:
  "snd (gateway_step (Status_request ''c2'')
      (gateway_run [Connect ''c1'' ''u'', Connect ''c2'' ''u'', Disconnect ''c1'' ''u'']
         fresh_server))
     = [(Socket ''c2'', Users_online [])]
   \<and> ''c2'' \<in> set (sockets
      (gateway_run [Connect ''c1'' ''u'', Connect ''c2'' ''u'', Disconnect ''c1'' ''u'']
         fresh_server))"
  by (simp add: fresh_server_def connection_def admit_def disconnect_def release_def
      status_request_def Let_def)

text \<open>
  C10, amended: the connect of \<open>u\<close> on \<open>sock\<close> emits the online broadcast for \<open>u\<close>, which
  reaches \<open>sock\<close> too, and then the snapshot to \<open>sock\<close>, which lists \<open>u\<close>; and after any
  further gateway events \<open>es\<close> among which no connection of \<open>u\<close> disconnects, the reply to a
  \<^verbatim>\<open>status:request\<close> lists \<open>u\<close>.
\<close>

theorem connect_snapshot_includes_self:
  assumes "list_all (\<lambda>e. \<not> is_disconnect_of u e) es"
  shows "snd (gateway_step (Connect sock u) s) =
           [(Broadcast, User_online u),
            (Socket sock,
             Users_online (map fst (onlineUsers (fst (gateway_step (Connect sock u) s)))))]
       \<and> u \<in> set (map fst (onlineUsers (fst (gateway_step (Connect sock u) s))))
       \<and> sock \<in> set (receivers (fst (gateway_step (Connect sock u) s)) Broadcast)
       \<and> snd (gateway_step (Status_request sock')
               (gateway_run es (fst (gateway_step (Connect sock u) s))))
           = [(Socket sock', Users_online (map fst (onlineUsers
                (gateway_run es (fst (gateway_step (Connect sock u) s))))))]
       \<and> u \<in> set (map fst (onlineUsers
                (gateway_run es (fst (gateway_step (Connect sock u) s)))))"
proof -
  let ?s1 = "fst (gateway_step (Connect sock u) s)"
  have on: "is_online u ?s1"
    by (rule connection_online)
  have later: "is_online u (gateway_run es ?s1)"
    using on assms by (rule gateway_run_keeps_online)
  have evs: "snd (gateway_step (Connect sock u) s) =
           [(Broadcast, User_online u), (Socket sock, Users_online (map fst (onlineUsers ?s1)))]"
    by (simp add: connection_def Let_def)
  have recv: "sock \<in> set (receivers ?s1 Broadcast)"
    by (simp add: connection_def admit_def receivers_def Let_def)
  have reply: "snd (gateway_step (Status_request sock') (gateway_run es ?s1))
           = [(Socket sock', Users_online (map fst (onlineUsers (gateway_run es ?s1))))]"
    by (simp add: status_request_def)
  from on later evs recv reply show ?thesis
    unfolding is_online_keys by blast
qed

theorem connect_snapshot_includes_self_witness:
  "list_all (\<lambda>e. \<not> is_disconnect_of ''u'' e) [Connect ''c9'' ''v'', Disconnect ''c9'' ''v'']
   \<and> snd (gateway_step (Status_request ''c1'')
        (gateway_run [Connect ''c9'' ''v'', Disconnect ''c9'' ''v'']
           (fst (gateway_step (Connect ''c1'' ''u'') fresh_server))))
      = [(Socket ''c1'', Users_online [''u''])]"
  using connect_snapshot_includes_self
    [of "''u''" "[Connect ''c9'' ''v'', Disconnect ''c9'' ''v'']" "''c1''" fresh_server "''c1''"]
  by (simp add: is_disconnect_of_def fresh_server_def connection_def admit_def disconnect_def
      release_def status_request_def Let_def)

section \<open>The message router\<close>

lemmas router_defs = message_send_def find_or_create_session_def truthy_def the_string_def
  sort_pair_def chatSession_findUnique_pair_def chatSession_findUnique_id_def
  chatSession_create_def chatSession_update_def message_create_def user_findUnique_def
  deliver_def messageData_def send_failed_def select_user_def quiet_def Let_def

lemmas fixture_defs = seeded_def alice_def bob_def charlie_def gen1_def gen2_def
  fresh_server_def connection_def admit_def alice_online_def bob_charlie_def alice_bob_def
  said_def chatty_def

text \<open>
  C5, as the claim states it, fails for a request without a payload object: it has neither
  a recipient nor a content, the destructuring throws, and the answer is the
  \<^verbatim>\<open>message:error\<close> of the \<^verbatim>\<open>catch\<close> block, which does not name the missing fields.
\<close>

theorem message_send_no_payload_counterexample:
  "message_send quiet gen1 ''c1'' ''alice'' None alice_online
     = (alice_online,
        [(Socket ''c1'', Message_error ''Failed to send message'' (Some TypeError))])
   \<and> snd (message_send quiet gen1 ''c1'' ''alice'' None alice_online)
     \<noteq> [(Socket ''c1'',
          Message_error ''Missing required fields: recipientId and content'' None)]"
  by (simp add: message_send_def send_failed_def)

text \<open>
  C5, amended: a \<^verbatim>\<open>message:send\<close> whose payload object has a missing or empty recipient or
  content is answered by one \<^verbatim>\<open>message:error\<close> naming the missing required fields, emitted
  on the sending socket alone, and the handler returns in the state it started in, before
  its first suspension point and so before any call of the store. A request without a
  payload object is rejected in the same way, on the sending socket alone and in the state
  it started in, but by the \<^verbatim>\<open>message:error\<close> of the \<^verbatim>\<open>catch\<close> block. A payload with a
  recipient and a non-empty content is not answered by the missing-fields error.
\<close>

theorem message_send_validation:
  "message_send others gen sock userId None s =
     (s, [(Socket sock, Message_error ''Failed to send message'' (Some TypeError))])
   \<and> (\<not> truthy (p_recipientId data) \<or> \<not> truthy (p_content data) \<longrightarrow>
      message_send others gen sock userId (Some data) s =
        (s, [(Socket sock,
              Message_error ''Missing required fields: recipientId and content'' None)])
      \<and> receivers s (Socket sock) = [sock])
   \<and> (truthy (p_recipientId data) \<and> truthy (p_content data) \<longrightarrow>
      snd (message_send others gen sock userId (Some data) s) \<noteq>
        [(Socket sock, Message_error ''Missing required fields: recipientId and content'' None)])"
  by (auto simp: message_send_def receivers_def Let_def deliver_def send_failed_def
      split: sum.splits option.splits prod.splits)

theorem message_send_validation_witness:
  "message_send quiet gen1 ''c1'' ''alice'' None alice_online
     = (alice_online,
        [(Socket ''c1'', Message_error ''Failed to send message'' (Some TypeError))])
   \<and> message_send quiet gen1 ''c1'' ''alice''
      (Some \<lparr>p_recipientId = Some ''bob'', p_content = Some [], p_sessionId = None\<rparr>)
      alice_online
     = (alice_online,
        [(Socket ''c1'',
          Message_error ''Missing required fields: recipientId and content'' None)])
   \<and> message_send quiet gen1 ''c1'' ''alice''
      (Some \<lparr>p_recipientId = None, p_content = Some ''hi'', p_sessionId = None\<rparr>)
      alice_online
     = (alice_online,
        [(Socket ''c1'',
          Message_error ''Missing required fields: recipientId and content'' None)])
   \<and> snd (message_send quiet gen1 ''c1'' ''alice''
      (Some \<lparr>p_recipientId = Some ''bob'', p_content = Some ''hi'', p_sessionId = None\<rparr>)
      alice_online)
     \<noteq> [(Socket ''c1'',
          Message_error ''Missing required fields: recipientId and content'' None)]"
  using message_send_validation [of quiet gen1 "''c1''" "''alice''" alice_online
      "\<lparr>p_recipientId = Some ''bob'', p_content = Some [], p_sessionId = None\<rparr>"]
    message_send_validation [of quiet gen1 "''c1''" "''alice''" alice_online
      "\<lparr>p_recipientId = None, p_content = Some ''hi'', p_sessionId = None\<rparr>"]
    message_send_validation [of quiet gen1 "''c1''" "''alice''" alice_online
      "\<lparr>p_recipientId = Some ''bob'', p_content = Some ''hi'', p_sessionId = None\<rparr>"]
  by (simp add: truthy_def)

text \<open>
  C9: a valid \<^verbatim>\<open>message:send\<close> with an explicit \<^verbatim>\<open>sessionId\<close> that no session row has is
  answered by one \<^verbatim>\<open>message:error\<close> on the sending socket, and the handler itself writes
  nothing: the state it ends in is the one the lookup ran on, so no message row and no
  session row is created.
\<close>

theorem message_send_unknown_session:
  assumes "truthy (p_recipientId data)" and "truthy (p_content data)"
    and "truthy (p_sessionId data)"
    and "chatSession_findUnique_id (the_string (p_sessionId data)) (store (others 0 s)) = None"
  shows "message_send others gen sock userId (Some data) s =
     (others 0 s, [(Socket sock, Message_error ''Failed to create or find session'' None)])"
  using assms by (simp add: message_send_def find_or_create_session_def Let_def)

theorem message_send_unknown_session_witness:
  "message_send quiet gen1 ''c1'' ''alice''
      (Some \<lparr>p_recipientId = Some ''bob'', p_content = Some ''hi'', p_sessionId = Some ''nope''\<rparr>)
      alice_online
     = (alice_online, [(Socket ''c1'', Message_error ''Failed to create or find session'' None)])"
proof -
  have "chatSession_findUnique_id ''nope'' (store (quiet 0 alice_online)) = None"
    by (simp add: chatSession_findUnique_id_def quiet_def fixture_defs Let_def)
  then show ?thesis
    using message_send_unknown_session [of
      "\<lparr>p_recipientId = Some ''bob'', p_content = Some ''hi'', p_sessionId = Some ''nope''\<rparr>"
      quiet alice_online gen1 "''c1''" "''alice''"]
    by (simp add: truthy_def the_string_def quiet_def)
qed

lemma message_create_row:
  assumes "message_create gen content sender recipient sess d = Inr ((m, su, ru), d')"
  shows "m = \<lparr>m_id = message_cuid gen, m_content = content, senderId = sender,
                recipientId = recipient, m_sessionId = sess, isAiMessage = False,
                createdAt = message_time gen\<rparr>"
    and "messages d' = messages d @ [m]"
    and "\<exists>u. user_findUnique sender d = Some u \<and> su = select_user u"
    and "\<exists>u. user_findUnique recipient d = Some u \<and> ru = select_user u"
  using assms
  by (auto simp: message_create_def Let_def split: if_splits option.splits)

lemma deliver_online:
  "map_of (onlineUsers s) recipient = Some c \<Longrightarrow> c \<noteq> [] \<Longrightarrow>
     deliver sock recipient md s = [(Room c, Message_receive md), (Socket sock, Message_sent md)]"
  by (simp add: deliver_def truthy_def the_string_def)

lemma deliver_offline:
  "map_of (onlineUsers s) recipient = None \<Longrightarrow>
     deliver sock recipient md s = [(Socket sock, Message_sent md)]"
  by (simp add: deliver_def truthy_def)

lemma message_send_persisted:
  assumes "truthy (p_recipientId data)" and "truthy (p_content data)"
    and "find_or_create_session others gen userId (the_string (p_recipientId data))
           (p_sessionId data) s = Inr (Some session, s1)"
    and "message_create gen (the_string (p_content data)) userId (the_string (p_recipientId data))
           (cs_id session) (store (others 2 s1)) = Inr ((m, su, ru), d)"
    and "chatSession_update gen (cs_id session) (store (others 3 ((others 2 s1)\<lparr>store := d\<rparr>)))
           = Inr d'"
  shows "message_send others gen sock userId (Some data) s =
     (others 4 ((others 3 ((others 2 s1)\<lparr>store := d\<rparr>))\<lparr>store := d'\<rparr>),
      deliver sock (the_string (p_recipientId data)) (messageData m su ru)
        (others 4 ((others 3 ((others 2 s1)\<lparr>store := d\<rparr>))\<lparr>store := d'\<rparr>)))"
  using assms by (simp add: message_send_def Let_def)

lemma messageData_joined:
  assumes "message_create gen content sender recipient sess d = Inr ((m, su, ru), d')"
    and "user_findUnique sender d = Some sr" and "user_findUnique recipient d = Some rr"
  shows "messageData m su ru =
     \<lparr>md_id = message_cuid gen, md_content = content, md_senderId = sender,
      md_recipientId = recipient, md_sessionId = sess, md_createdAt = message_time gen,
      md_sender = \<lparr>us_id = u_id sr, us_name = u_name sr, us_email = u_email sr,
                   us_image = u_image sr, us_provider = u_provider sr\<rparr>,
      md_recipient = \<lparr>us_id = u_id rr, us_name = u_name rr, us_email = u_email rr,
                      us_image = u_image rr, us_provider = u_provider rr\<rparr>\<rparr>"
  using message_create_row [OF assms(1)] assms(2,3)
  by (auto simp: messageData_def select_user_def)

text \<open>
  C6: take a send that passed validation, found or created its session, and whose message
  row and session update were both written, and let \<open>s4\<close> be the state in which the
  handler then reads the registry. The store holds the new row: the identifier and the
  creation time the store assigned, the content, the sender, the recipient and the session
  of the send. The record \<open>md\<close> that the handler emits has these six values, which are
  all columns of the row but the AI flag (false on every row this handler writes), and,
  joined to them, the id, name, email, image and provider of the sender's and of the
  recipient's user row. If the registry holds a connection \<open>c\<close> for the recipient (a socket.io id, never
  the empty string), the handler emits one \<^verbatim>\<open>message:receive\<close> with \<open>md\<close> to \<open>c\<close> and then
  one \<^verbatim>\<open>message:sent\<close> with \<open>md\<close> to the sending socket; if it holds none, it emits the
  \<^verbatim>\<open>message:sent\<close> alone.
\<close>

theorem message_send_delivery:
  assumes valid: "truthy (p_recipientId data)" "truthy (p_content data)"
    and resolved: "find_or_create_session others gen userId (the_string (p_recipientId data))
           (p_sessionId data) s = Inr (Some session, s1)"
    and created: "message_create gen (the_string (p_content data)) userId
           (the_string (p_recipientId data)) (cs_id session) (store (others 2 s1))
           = Inr ((m, su, ru), d)"
    and updated: "chatSession_update gen (cs_id session)
           (store (others 3 ((others 2 s1)\<lparr>store := d\<rparr>))) = Inr d'"
    and final: "s4 = others 4 ((others 3 ((others 2 s1)\<lparr>store := d\<rparr>))\<lparr>store := d'\<rparr>)"
    and handle: "map_of (onlineUsers s4) (the_string (p_recipientId data)) \<noteq> Some []"
  shows "\<exists>sr rr md.
       user_findUnique userId (store (others 2 s1)) = Some sr
     \<and> user_findUnique (the_string (p_recipientId data)) (store (others 2 s1)) = Some rr
     \<and> md = \<lparr>md_id = message_cuid gen, md_content = the_string (p_content data),
              md_senderId = userId, md_recipientId = the_string (p_recipientId data),
              md_sessionId = cs_id session, md_createdAt = message_time gen,
              md_sender = \<lparr>us_id = u_id sr, us_name = u_name sr, us_email = u_email sr,
                           us_image = u_image sr, us_provider = u_provider sr\<rparr>,
              md_recipient = \<lparr>us_id = u_id rr, us_name = u_name rr, us_email = u_email rr,
                              us_image = u_image rr, us_provider = u_provider rr\<rparr>\<rparr>
     \<and> messages d = messages (store (others 2 s1)) @
           [\<lparr>m_id = message_cuid gen, m_content = the_string (p_content data),
             senderId = userId, recipientId = the_string (p_recipientId data),
             m_sessionId = cs_id session, isAiMessage = False,
             createdAt = message_time gen\<rparr>]
     \<and> fst (message_send others gen sock userId (Some data) s) = s4
     \<and> (case map_of (onlineUsers s4) (the_string (p_recipientId data)) of
          Some c \<Rightarrow> snd (message_send others gen sock userId (Some data) s) =
                     [(Room c, Message_receive md), (Socket sock, Message_sent md)]
        | None \<Rightarrow> snd (message_send others gen sock userId (Some data) s) =
                     [(Socket sock, Message_sent md)])"
proof -
  note row = message_create_row [OF created]
  from row(3) obtain sr where sr: "user_findUnique userId (store (others 2 s1)) = Some sr"
    by blast
  from row(4) obtain rr
    where rr: "user_findUnique (the_string (p_recipientId data)) (store (others 2 s1)) = Some rr"
    by blast
  let ?md = "messageData m su ru"
  have md: "?md = \<lparr>md_id = message_cuid gen, md_content = the_string (p_content data),
              md_senderId = userId, md_recipientId = the_string (p_recipientId data),
              md_sessionId = cs_id session, md_createdAt = message_time gen,
              md_sender = \<lparr>us_id = u_id sr, us_name = u_name sr, us_email = u_email sr,
                           us_image = u_image sr, us_provider = u_provider sr\<rparr>,
              md_recipient = \<lparr>us_id = u_id rr, us_name = u_name rr, us_email = u_email rr,
                              us_image = u_image rr, us_provider = u_provider rr\<rparr>\<rparr>"
    using created sr rr by (rule messageData_joined)
  have stored: "messages d = messages (store (others 2 s1)) @
           [\<lparr>m_id = message_cuid gen, m_content = the_string (p_content data),
             senderId = userId, recipientId = the_string (p_recipientId data),
             m_sessionId = cs_id session, isAiMessage = False,
             createdAt = message_time gen\<rparr>]"
    using row(1) row(2) by simp
  have run: "message_send others gen sock userId (Some data) s =
      (s4, deliver sock (the_string (p_recipientId data)) ?md s4)"
    unfolding final using valid resolved created updated by (rule message_send_persisted)
  have emits: "case map_of (onlineUsers s4) (the_string (p_recipientId data)) of
          Some c \<Rightarrow> snd (message_send others gen sock userId (Some data) s) =
                     [(Room c, Message_receive ?md), (Socket sock, Message_sent ?md)]
        | None \<Rightarrow> snd (message_send others gen sock userId (Some data) s) =
                     [(Socket sock, Message_sent ?md)]"
    using handle by (auto simp: run deliver_online deliver_offline split: option.splits)
  have state: "fst (message_send others gen sock userId (Some data) s) = s4"
    by (simp add: run)
  from sr rr md stored state emits show ?thesis
    by (intro exI [of _ sr] exI [of _ rr] exI [of _ ?md] conjI)
qed

theorem message_send_delivery_witness:
  "snd (message_send quiet gen1 ''c2'' ''bob''
       (Some \<lparr>p_recipientId = Some ''alice'', p_content = Some ''hi'', p_sessionId = None\<rparr>)
       alice_online)
   = [(Room ''c1'', Message_receive
         \<lparr>md_id = ''m1'', md_content = ''hi'', md_senderId = ''bob'', md_recipientId = ''alice'',
          md_sessionId = ''s1'', md_createdAt = 11,
          md_sender = \<lparr>us_id = ''bob'', us_name = Some ''Bob Andersson'',
            us_email = ''bob.sweden@example.com'', us_image = None, us_provider = ''jwt''\<rparr>,
          md_recipient = \<lparr>us_id = ''alice'', us_name = Some ''Alice Johnson'',
            us_email = ''alice.london@example.com'', us_image = None, us_provider = ''jwt''\<rparr>\<rparr>),
      (Socket ''c2'', Message_sent
         \<lparr>md_id = ''m1'', md_content = ''hi'', md_senderId = ''bob'', md_recipientId = ''alice'',
          md_sessionId = ''s1'', md_createdAt = 11,
          md_sender = \<lparr>us_id = ''bob'', us_name = Some ''Bob Andersson'',
            us_email = ''bob.sweden@example.com'', us_image = None, us_provider = ''jwt''\<rparr>,
          md_recipient = \<lparr>us_id = ''alice'', us_name = Some ''Alice Johnson'',
            us_email = ''alice.london@example.com'', us_image = None, us_provider = ''jwt''\<rparr>\<rparr>)]
   \<and> snd (message_send quiet gen1 ''c1'' ''alice''
       (Some \<lparr>p_recipientId = Some ''charlie'', p_content = Some ''yo'', p_sessionId = None\<rparr>)
       alice_online)
   = [(Socket ''c1'', Message_sent
         \<lparr>md_id = ''m1'', md_content = ''yo'', md_senderId = ''alice'',
          md_recipientId = ''charlie'', md_sessionId = ''s1'', md_createdAt = 11,
          md_sender = \<lparr>us_id = ''alice'', us_name = Some ''Alice Johnson'',
            us_email = ''alice.london@example.com'', us_image = None, us_provider = ''jwt''\<rparr>,
          md_recipient = \<lparr>us_id = ''charlie'', us_name = Some ''Charlie Williams'',
            us_email = ''charlie.us@example.com'', us_image = None, us_provider = ''jwt''\<rparr>\<rparr>)]
   \<and> messages (store (fst (message_send quiet gen1 ''c1'' ''alice''
       (Some \<lparr>p_recipientId = Some ''charlie'', p_content = Some ''yo'', p_sessionId = None\<rparr>)
       alice_online)))
   = [\<lparr>m_id = ''m1'', m_content = ''yo'', senderId = ''alice'', recipientId = ''charlie'',
       m_sessionId = ''s1'', isAiMessage = False, createdAt = 11\<rparr>]"
proof -
  let ?data = "\<lparr>p_recipientId = Some ''alice'', p_content = Some ''hi'', p_sessionId = None\<rparr>"
  let ?c = "alice_bob"
  let ?d1 = "seeded\<lparr>chatSessions := [?c]\<rparr>"
  let ?m = "said ''m1'' ''hi'' ''bob'' ''alice'' 11"
  let ?d2 = "?d1\<lparr>messages := [?m]\<rparr>"
  let ?d3 = "?d2\<lparr>chatSessions := [?c\<lparr>updatedAt := 12\<rparr>]\<rparr>"
  have v: "truthy (p_recipientId ?data)" "truthy (p_content ?data)"
    by (simp_all add: truthy_def)
  have r: "find_or_create_session quiet gen1 ''bob'' (the_string (p_recipientId ?data))
      (p_sessionId ?data) alice_online = Inr (Some ?c, alice_online\<lparr>store := ?d1\<rparr>)"
    by (simp add: router_defs fixture_defs)
  have c: "message_create gen1 (the_string (p_content ?data)) ''bob''
      (the_string (p_recipientId ?data)) (cs_id ?c)
      (store (quiet 2 (alice_online\<lparr>store := ?d1\<rparr>)))
      = Inr ((?m, select_user bob, select_user alice), ?d2)"
    by (simp add: router_defs fixture_defs)
  have u: "chatSession_update gen1 (cs_id ?c)
      (store (quiet 3 ((quiet 2 (alice_online\<lparr>store := ?d1\<rparr>))\<lparr>store := ?d2\<rparr>))) = Inr ?d3"
    by (simp add: router_defs fixture_defs)
  have h: "map_of (onlineUsers (quiet 4 ((quiet 3 ((quiet 2 (alice_online\<lparr>store := ?d1\<rparr>))
      \<lparr>store := ?d2\<rparr>))\<lparr>store := ?d3\<rparr>))) (the_string (p_recipientId ?data)) = Some ''c1''"
    by (simp add: router_defs fixture_defs)
  have n: "map_of (onlineUsers (quiet 4 ((quiet 3 ((quiet 2 (alice_online\<lparr>store := ?d1\<rparr>))
      \<lparr>store := ?d2\<rparr>))\<lparr>store := ?d3\<rparr>))) (the_string (p_recipientId ?data)) \<noteq> Some []"
    by (simp add: router_defs fixture_defs)
  have sb: "user_findUnique ''bob'' (store (quiet 2 (alice_online\<lparr>store := ?d1\<rparr>))) = Some bob"
    by (simp add: router_defs fixture_defs)
  have sa: "user_findUnique (the_string (p_recipientId ?data))
      (store (quiet 2 (alice_online\<lparr>store := ?d1\<rparr>))) = Some alice"
    by (simp add: router_defs fixture_defs)
  from message_send_delivery [OF v r c u refl n, of "''c2''"] h sb sa
  have online: "snd (message_send quiet gen1 ''c2'' ''bob'' (Some ?data) alice_online)
   = [(Room ''c1'', Message_receive
         \<lparr>md_id = ''m1'', md_content = ''hi'', md_senderId = ''bob'', md_recipientId = ''alice'',
          md_sessionId = ''s1'', md_createdAt = 11,
          md_sender = \<lparr>us_id = ''bob'', us_name = Some ''Bob Andersson'',
            us_email = ''bob.sweden@example.com'', us_image = None, us_provider = ''jwt''\<rparr>,
          md_recipient = \<lparr>us_id = ''alice'', us_name = Some ''Alice Johnson'',
            us_email = ''alice.london@example.com'', us_image = None, us_provider = ''jwt''\<rparr>\<rparr>),
      (Socket ''c2'', Message_sent
         \<lparr>md_id = ''m1'', md_content = ''hi'', md_senderId = ''bob'', md_recipientId = ''alice'',
          md_sessionId = ''s1'', md_createdAt = 11,
          md_sender = \<lparr>us_id = ''bob'', us_name = Some ''Bob Andersson'',
            us_email = ''bob.sweden@example.com'', us_image = None, us_provider = ''jwt''\<rparr>,
          md_recipient = \<lparr>us_id = ''alice'', us_name = Some ''Alice Johnson'',
            us_email = ''alice.london@example.com'', us_image = None, us_provider = ''jwt''\<rparr>\<rparr>)]"
    by (auto simp: the_string_def gen1_def alice_bob_def alice_def bob_def)
  have offline: "message_send quiet gen1 ''c1'' ''alice''
       (Some \<lparr>p_recipientId = Some ''charlie'', p_content = Some ''yo'', p_sessionId = None\<rparr>)
       alice_online
     = (alice_online\<lparr>store := seeded\<lparr>
          chatSessions := [\<lparr>cs_id = ''s1'', user1Id = ''alice'', user2Id = ''charlie'',
            isAiChat = False, cs_createdAt = 10, updatedAt = 12\<rparr>],
          messages := [\<lparr>m_id = ''m1'', m_content = ''yo'', senderId = ''alice'',
            recipientId = ''charlie'', m_sessionId = ''s1'', isAiMessage = False,
            createdAt = 11\<rparr>]\<rparr>\<rparr>,
        [(Socket ''c1'', Message_sent
         \<lparr>md_id = ''m1'', md_content = ''yo'', md_senderId = ''alice'',
          md_recipientId = ''charlie'', md_sessionId = ''s1'', md_createdAt = 11,
          md_sender = \<lparr>us_id = ''alice'', us_name = Some ''Alice Johnson'',
            us_email = ''alice.london@example.com'', us_image = None, us_provider = ''jwt''\<rparr>,
          md_recipient = \<lparr>us_id = ''charlie'', us_name = Some ''Charlie Williams'',
            us_email = ''charlie.us@example.com'', us_image = None, us_provider = ''jwt''\<rparr>\<rparr>)])"
    by (simp add: router_defs fixture_defs)
  show ?thesis
    using online by (simp add: offline)
qed

text \<open>
  C2 fails on the socket path when the request names a session: \<open>alice\<close> sends to \<open>bob\<close>
  with the id of the session of \<open>bob\<close> and \<open>charlie\<close>. The row is stored under that session,
  of which its sender is no participant.
\<close>

theorem message_send_foreign_session:
  "messages (store (fst (message_send quiet gen2 ''c1'' ''alice''
       (Some \<lparr>p_recipientId = Some ''bob'', p_content = Some ''hi'', p_sessionId = Some ''s1''\<rparr>)
       (alice_online\<lparr>store := seeded\<lparr>chatSessions := [bob_charlie]\<rparr>\<rparr>))))
    = [said ''m2'' ''hi'' ''alice'' ''bob'' 21]
   \<and> chatSession_findUnique_id ''s1'' (store (fst (message_send quiet gen2 ''c1'' ''alice''
       (Some \<lparr>p_recipientId = Some ''bob'', p_content = Some ''hi'', p_sessionId = Some ''s1''\<rparr>)
       (alice_online\<lparr>store := seeded\<lparr>chatSessions := [bob_charlie]\<rparr>\<rparr>))))
      = Some (bob_charlie\<lparr>updatedAt := 22\<rparr>)
   \<and> \<not> participant ''alice'' (bob_charlie\<lparr>updatedAt := 22\<rparr>)
   \<and> \<not> message_in_session (store (fst (message_send quiet gen2 ''c1'' ''alice''
       (Some \<lparr>p_recipientId = Some ''bob'', p_content = Some ''hi'', p_sessionId = Some ''s1''\<rparr>)
       (alice_online\<lparr>store := seeded\<lparr>chatSessions := [bob_charlie]\<rparr>\<rparr>))))
       (said ''m2'' ''hi'' ''alice'' ''bob'' 21)"
  by (simp add: router_defs fixture_defs participant_def message_in_session_def)

theorem message_send_foreign_session_witness:
  "map senderId (messages (store (fst (message_send quiet gen2 ''c1'' ''alice''
       (Some \<lparr>p_recipientId = Some ''bob'', p_content = Some ''hi'', p_sessionId = Some ''s1''\<rparr>)
       (alice_online\<lparr>store := seeded\<lparr>chatSessions := [bob_charlie]\<rparr>\<rparr>)))))
    = [''alice'']
   \<and> map_option user1Id (chatSession_findUnique_id ''s1''
       (store (fst (message_send quiet gen2 ''c1'' ''alice''
       (Some \<lparr>p_recipientId = Some ''bob'', p_content = Some ''hi'', p_sessionId = Some ''s1''\<rparr>)
       (alice_online\<lparr>store := seeded\<lparr>chatSessions := [bob_charlie]\<rparr>\<rparr>)))))
    = Some ''bob''
   \<and> map_option user2Id (chatSession_findUnique_id ''s1''
       (store (fst (message_send quiet gen2 ''c1'' ''alice''
       (Some \<lparr>p_recipientId = Some ''bob'', p_content = Some ''hi'', p_sessionId = Some ''s1''\<rparr>)
       (alice_online\<lparr>store := seeded\<lparr>chatSessions := [bob_charlie]\<rparr>\<rparr>)))))
    = Some ''charlie''"
  using message_send_foreign_session by (simp add: said_def bob_charlie_def)

text \<open>The HTTP send checks both ends against the session before it writes the row.\<close>

lemma messages_POST_participants:
  assumes "messages_POST others gen (Some sender) data d = ((201, Created_message m su ru), d')"
  shows "\<exists>c. chatSession_findUnique_id (m_sessionId m) (others 0 d) = Some c
           \<and> participant (senderId m) c \<and> participant (recipientId m) c"
  using assms
  by (auto simp: messages_POST_def Let_def participant_def dest!: message_create_row(1)
      split: if_splits option.splits sum.splits)

text \<open>Without a \<^verbatim>\<open>sessionId\<close> the socket path takes the session of the sorted pair.\<close>

lemma find_pair_fields:
  "chatSession_findUnique_pair u1 u2 d = Some c \<Longrightarrow> user1Id c = u1 \<and> user2Id c = u2"
  by (auto simp: chatSession_findUnique_pair_def find_Some_iff)

lemma chatSession_create_fields:
  "chatSession_create gen u1 u2 d = Inr (c, d') \<Longrightarrow> user1Id c = u1 \<and> user2Id c = u2"
  by (auto simp: chatSession_create_def Let_def split: if_splits)

lemma find_or_create_session_participants:
  assumes "find_or_create_session others gen a b None s = Inr (Some c, s')"
  shows "participant a c \<and> participant b c"
  using assms
  by (auto simp: find_or_create_session_def Let_def truthy_def split_beta participant_def
        sort_pair_def
      dest!: find_pair_fields chatSession_create_fields
      split: if_splits option.splits sum.splits)

text \<open>
  C4 fails on the socket path: \<open>alice\<close> sends to herself without a \<^verbatim>\<open>sessionId\<close>. Nothing
  is rejected: a session of \<open>alice\<close> with \<open>alice\<close> is created, the message is stored in it,
  delivered and acknowledged.
\<close>

theorem message_send_self_pairing:
  "message_send quiet gen1 ''c1'' ''alice''
       (Some \<lparr>p_recipientId = Some ''alice'', p_content = Some ''hi'', p_sessionId = None\<rparr>) alice_online
   = (alice_online\<lparr>store := seeded\<lparr>
         chatSessions := [\<lparr>cs_id = ''s1'', user1Id = ''alice'', user2Id = ''alice'',
            isAiChat = False, cs_createdAt = 10, updatedAt = 12\<rparr>],
         messages := [said ''m1'' ''hi'' ''alice'' ''alice'' 11]\<rparr>\<rparr>,
      [(Room ''c1'', Message_receive (messageData (said ''m1'' ''hi'' ''alice'' ''alice'' 11)
           (select_user alice) (select_user alice))),
       (Socket ''c1'', Message_sent (messageData (said ''m1'' ''hi'' ''alice'' ''alice'' 11)
           (select_user alice) (select_user alice)))])"
  by (simp add: router_defs fixture_defs)

theorem message_send_self_pairing_witness:
  "map (\<lambda>c. (user1Id c, user2Id c))
     (chatSessions (store (fst (message_send quiet gen1 ''c1'' ''alice''
       (Some \<lparr>p_recipientId = Some ''alice'', p_content = Some ''hi'', p_sessionId = None\<rparr>)
       alice_online))))
   = [(''alice'', ''alice'')]"
  using message_send_self_pairing by simp

text \<open>The HTTP resolver rejects the same pair, and writes nothing.\<close>

lemma sessions_POST_self_pairing:
  "a \<noteq> [] \<Longrightarrow> sessions_POST others gen (Some a) (Some a) d =
     ((400, Error ''Cannot create session with yourself''), d)"
  by (simp add: sessions_POST_def truthy_def the_string_def)

text \<open>
  C3 fails on the socket path: \<open>alice\<close> sends her first message to \<open>bob\<close>, and between the
  handler's lookup and its create another request creates the session of the pair. The
  unique-constraint error of the create is not followed by a second lookup: it reaches the
  \<^verbatim>\<open>catch\<close> block, the sender gets \<^verbatim>\<open>message:error\<close>, and the message is not stored.
\<close>

theorem message_send_create_race:
  "message_send racing gen1 ''c1'' ''alice''
       (Some \<lparr>p_recipientId = Some ''bob'', p_content = Some ''hi'', p_sessionId = None\<rparr>) alice_online
   = (alice_online\<lparr>store := seeded\<lparr>
         chatSessions := [\<lparr>cs_id = ''s2'', user1Id = ''alice'', user2Id = ''bob'',
            isAiChat = False, cs_createdAt = 20, updatedAt = 20\<rparr>]\<rparr>\<rparr>,
      [(Socket ''c1'', Message_error ''Failed to send message'' (Some P2002))])"
  by (simp add: router_defs fixture_defs racing_def)

theorem message_send_create_race_witness:
  "snd (message_send racing gen1 ''c1'' ''alice''
       (Some \<lparr>p_recipientId = Some ''bob'', p_content = Some ''hi'', p_sessionId = None\<rparr>) alice_online)
     = [(Socket ''c1'', Message_error ''Failed to send message'' (Some P2002))]
   \<and> messages (store (fst (message_send racing gen1 ''c1'' ''alice''
       (Some \<lparr>p_recipientId = Some ''bob'', p_content = Some ''hi'', p_sessionId = None\<rparr>)
       alice_online))) = []"
  using message_send_create_race by (simp add: seeded_def)

text \<open>
  The HTTP resolver in the same race: after the unique-constraint error it reads the pair
  again and answers with the row it finds, and with the error only if it finds none.
\<close>

lemma sessions_POST_create_race:
  assumes "a \<noteq> b" and "b \<noteq> []"
    and "user_findUnique a (others 0 d) \<noteq> None"
    and "user_findUnique b (others 1 (others 0 d)) \<noteq> None"
    and "d2 = others 2 (others 1 (others 0 d))"
    and "chatSession_findUnique_pair (fst (sort_pair a b)) (snd (sort_pair a b)) d2 = None"
    and "chatSession_create gen (fst (sort_pair a b)) (snd (sort_pair a b)) (others 3 d2)
           = Inl P2002"
    and "d5 = others 4 (others 3 d2)"
  shows "sessions_POST others gen (Some a) (Some b) d =
     (case chatSession_findUnique_pair (fst (sort_pair a b)) (snd (sort_pair a b)) d5 of
        Some c \<Rightarrow> ((200, Session c), d5)
      | None \<Rightarrow> ((500, Error ''Failed to create/find chat session''), d5))"
  using assms
  by (auto simp: sessions_POST_def Let_def truthy_def the_string_def split_beta
      split: option.splits)

section \<open>The session resolver\<close>

lemma sort_pair_swap: "a \<noteq> b \<Longrightarrow> sort_pair b a = sort_pair a b"
  by (auto simp: sort_pair_def)

lemma find_snoc:
  "find P (xs @ [y]) =
     (case find P xs of None \<Rightarrow> (if P y then Some y else None) | Some x \<Rightarrow> Some x)"
  by (induction xs) simp_all

lemma chatSession_create_found:
  assumes "chatSession_create gen a b d = Inr (c, d')"
  shows "chatSession_findUnique_pair a b d' = Some c" and "users d' = users d"
    and "chatSessions d' = chatSessions d @ [c]"
  using assms
  by (auto simp: chatSession_create_def chatSession_findUnique_pair_def Let_def find_snoc
      split: if_splits)

lemma chatSession_create_succeeds:
  assumes "chatSession_findUnique_id (session_cuid gen) d = None"
    and "chatSession_findUnique_pair a b d = None"
    and "user_findUnique a d \<noteq> None" and "user_findUnique b d \<noteq> None"
  shows "\<exists>c d'. chatSession_create gen a b d = Inr (c, d')"
  using assms by (simp add: chatSession_create_def Let_def)

lemma sort_pair_cases:
  "(fst (sort_pair a b) = a \<and> snd (sort_pair a b) = b)
     \<or> (fst (sort_pair a b) = b \<and> snd (sort_pair a b) = a)"
  by (simp add: sort_pair_def)

lemma sessions_POST_quiet_result:
  assumes "sessions_POST quiet gen (Some a) (Some b) d = ((200, Session c), d')"
  shows "chatSession_findUnique_pair (fst (sort_pair a b)) (snd (sort_pair a b)) d' = Some c
       \<and> users d' = users d \<and> user_findUnique a d \<noteq> None \<and> user_findUnique b d \<noteq> None
       \<and> b \<noteq> []"
  using assms
  by (auto simp: sessions_POST_def quiet_def Let_def truthy_def the_string_def split_beta
        chatSession_create_found
      split: if_splits option.splits sum.splits)

lemma sessions_POST_quiet_found:
  assumes "chatSession_findUnique_pair (fst (sort_pair a b)) (snd (sort_pair a b)) d = Some c"
    and "user_findUnique a d \<noteq> None" and "user_findUnique b d \<noteq> None"
    and "a \<noteq> b" and "b \<noteq> []"
  shows "sessions_POST quiet gen (Some a) (Some b) d = ((200, Session c), d)"
  using assms
  by (auto simp: sessions_POST_def quiet_def Let_def truthy_def the_string_def split_beta)

lemma sessions_POST_quiet_resolves:
  assumes "a \<noteq> b" and "b \<noteq> []"
    and "user_findUnique a d \<noteq> None" and "user_findUnique b d \<noteq> None"
    and "chatSession_findUnique_id (session_cuid gen) d = None"
  shows "\<exists>c d'. sessions_POST quiet gen (Some a) (Some b) d = ((200, Session c), d')"
proof (cases "chatSession_findUnique_pair (fst (sort_pair a b)) (snd (sort_pair a b)) d")
  case (Some c)
  then have "sessions_POST quiet gen (Some a) (Some b) d = ((200, Session c), d)"
    using assms by (intro sessions_POST_quiet_found) auto
  then show ?thesis by blast
next
  case None
  have "user_findUnique (fst (sort_pair a b)) d \<noteq> None"
    and "user_findUnique (snd (sort_pair a b)) d \<noteq> None"
    using sort_pair_cases [of a b] assms(3,4) by auto
  with None assms(5) obtain c d'
    where "chatSession_create gen (fst (sort_pair a b)) (snd (sort_pair a b)) d = Inr (c, d')"
    using chatSession_create_succeeds by blast
  then have "sessions_POST quiet gen (Some a) (Some b) d = ((200, Session c), d')"
    using None assms
    by (auto simp: sessions_POST_def quiet_def Let_def truthy_def the_string_def split_beta)
  then show ?thesis by blast
qed

lemma find_or_create_quiet_result:
  assumes "find_or_create_session quiet gen a b None s = Inr (Some c, s')"
  shows "chatSession_findUnique_pair (fst (sort_pair a b)) (snd (sort_pair a b)) (store s')
           = Some c"
  using assms
  by (auto simp: find_or_create_session_def quiet_def Let_def truthy_def split_beta
        chatSession_create_found
      split: if_splits option.splits sum.splits)

lemma find_or_create_quiet_found:
  assumes "chatSession_findUnique_pair (fst (sort_pair a b)) (snd (sort_pair a b)) (store s)
             = Some c"
  shows "find_or_create_session quiet gen a b None s = Inr (Some c, s)"
  using assms
  by (simp add: find_or_create_session_def quiet_def Let_def truthy_def split_beta)

lemma find_or_create_quiet_resolves:
  assumes "user_findUnique a (store s) \<noteq> None" and "user_findUnique b (store s) \<noteq> None"
    and "chatSession_findUnique_id (session_cuid gen) (store s) = None"
  shows "\<exists>c s'. find_or_create_session quiet gen a b None s = Inr (Some c, s')"
proof (cases "chatSession_findUnique_pair (fst (sort_pair a b)) (snd (sort_pair a b)) (store s)")
  case (Some c)
  then have "find_or_create_session quiet gen a b None s = Inr (Some c, s)"
    by (rule find_or_create_quiet_found)
  then show ?thesis by blast
next
  case None
  have "user_findUnique (fst (sort_pair a b)) (store s) \<noteq> None"
    and "user_findUnique (snd (sort_pair a b)) (store s) \<noteq> None"
    using sort_pair_cases [of a b] assms(1,2) by auto
  with None assms(3) obtain c d'
    where "chatSession_create gen (fst (sort_pair a b)) (snd (sort_pair a b)) (store s)
             = Inr (c, d')"
    using chatSession_create_succeeds by blast
  then have "find_or_create_session quiet gen a b None s = Inr (Some c, s\<lparr>store := d'\<rparr>)"
    using None
    by (simp add: find_or_create_session_def quiet_def Let_def truthy_def split_beta)
  then show ?thesis by blast
qed

text \<open>
  C7: for two distinct identities the sorted pair does not depend on the order of the
  arguments. On the HTTP path, when the resolution for \<open>(a, b)\<close> answers with session \<open>c\<close>,
  the resolution for \<open>(b, a)\<close> that follows answers with the same \<open>c\<close> and leaves the store
  as it was, so it creates no second row; and the same holds for the lookup-or-create of
  \<^verbatim>\<open>message:send\<close>. On both paths the resolution for \<open>(a, b)\<close> does answer with a session
  when the two users exist and the identifier that the store generates is unused.
\<close>

theorem resolve_swapped_same_session:
  assumes "a \<noteq> b" and "a \<noteq> []"
  shows "sort_pair a b = sort_pair b a
     \<and> (sessions_POST quiet gen (Some a) (Some b) d = ((200, Session c), d') \<longrightarrow>
          sessions_POST quiet gen' (Some b) (Some a) d' = ((200, Session c), d'))
     \<and> (find_or_create_session quiet gen a b None s = Inr (Some c, s') \<longrightarrow>
          find_or_create_session quiet gen' b a None s' = Inr (Some c, s'))
     \<and> (b \<noteq> [] \<and> user_findUnique a d \<noteq> None \<and> user_findUnique b d \<noteq> None
          \<and> chatSession_findUnique_id (session_cuid gen) d = None \<longrightarrow>
          (\<exists>x dx. sessions_POST quiet gen (Some a) (Some b) d = ((200, Session x), dx)
             \<and> sessions_POST quiet gen' (Some b) (Some a) dx = ((200, Session x), dx)))
     \<and> (user_findUnique a (store s) \<noteq> None \<and> user_findUnique b (store s) \<noteq> None
          \<and> chatSession_findUnique_id (session_cuid gen) (store s) = None \<longrightarrow>
          (\<exists>x sx. find_or_create_session quiet gen a b None s = Inr (Some x, sx)
             \<and> find_or_create_session quiet gen' b a None sx = Inr (Some x, sx)))"
proof -
  have sw: "sort_pair a b = sort_pair b a"
    using assms(1) by (simp add: sort_pair_swap)
  have http: "sessions_POST quiet gen' (Some b) (Some a) dx = ((200, Session x), dx)"
    if first: "sessions_POST quiet gen (Some a) (Some b) d = ((200, Session x), dx)" for x dx
  proof -
    note r = sessions_POST_quiet_result [OF first]
    have "chatSession_findUnique_pair (fst (sort_pair b a)) (snd (sort_pair b a)) dx = Some x"
      using r sw by simp
    moreover have "user_findUnique b dx = user_findUnique b d"
      and "user_findUnique a dx = user_findUnique a d"
      using r by (simp_all only: user_findUnique_def)
    then have "user_findUnique b dx \<noteq> None" "user_findUnique a dx \<noteq> None"
      using r by simp_all
    ultimately show ?thesis
      using assms by (intro sessions_POST_quiet_found) auto
  qed
  have socket: "find_or_create_session quiet gen' b a None sx = Inr (Some x, sx)"
    if first: "find_or_create_session quiet gen a b None s = Inr (Some x, sx)" for x sx
  proof -
    have "chatSession_findUnique_pair (fst (sort_pair b a)) (snd (sort_pair b a)) (store sx)
            = Some x"
      using find_or_create_quiet_result [OF first] sw by simp
    then show ?thesis
      by (rule find_or_create_quiet_found)
  qed
  have http_total: "\<exists>x dx. sessions_POST quiet gen (Some a) (Some b) d = ((200, Session x), dx)
             \<and> sessions_POST quiet gen' (Some b) (Some a) dx = ((200, Session x), dx)"
    if h: "b \<noteq> [] \<and> user_findUnique a d \<noteq> None \<and> user_findUnique b d \<noteq> None
          \<and> chatSession_findUnique_id (session_cuid gen) d = None"
  proof -
    have "\<exists>x dx. sessions_POST quiet gen (Some a) (Some b) d = ((200, Session x), dx)"
      using assms(1) h by (intro sessions_POST_quiet_resolves) simp_all
    then obtain x dx
      where first: "sessions_POST quiet gen (Some a) (Some b) d = ((200, Session x), dx)"
      by (elim exE)
    from first http [OF first] show ?thesis
      by (intro exI [of _ x] exI [of _ dx] conjI)
  qed
  have socket_total: "\<exists>x sx. find_or_create_session quiet gen a b None s = Inr (Some x, sx)
             \<and> find_or_create_session quiet gen' b a None sx = Inr (Some x, sx)"
    if h: "user_findUnique a (store s) \<noteq> None \<and> user_findUnique b (store s) \<noteq> None
          \<and> chatSession_findUnique_id (session_cuid gen) (store s) = None"
  proof -
    have "\<exists>x sx. find_or_create_session quiet gen a b None s = Inr (Some x, sx)"
      using h by (intro find_or_create_quiet_resolves) simp_all
    then obtain x sx
      where first: "find_or_create_session quiet gen a b None s = Inr (Some x, sx)"
      by (elim exE)
    from first socket [OF first] show ?thesis
      by (intro exI [of _ x] exI [of _ sx] conjI)
  qed
  from sw http socket http_total socket_total show ?thesis
    by (intro conjI impI) simp_all
qed

theorem resolve_swapped_same_session_witness:
  "sessions_POST quiet gen1 (Some ''bob'') (Some ''alice'') seeded
     = ((200, Session alice_bob), seeded\<lparr>chatSessions := [alice_bob]\<rparr>)
   \<and> sessions_POST quiet gen2 (Some ''alice'') (Some ''bob'') (seeded\<lparr>chatSessions := [alice_bob]\<rparr>)
     = ((200, Session alice_bob), seeded\<lparr>chatSessions := [alice_bob]\<rparr>)
   \<and> find_or_create_session quiet gen1 ''bob'' ''alice'' None alice_online
     = Inr (Some alice_bob, alice_online\<lparr>store := seeded\<lparr>chatSessions := [alice_bob]\<rparr>\<rparr>)
   \<and> find_or_create_session quiet gen2 ''alice'' ''bob'' None
        (alice_online\<lparr>store := seeded\<lparr>chatSessions := [alice_bob]\<rparr>\<rparr>)
     = Inr (Some alice_bob, alice_online\<lparr>store := seeded\<lparr>chatSessions := [alice_bob]\<rparr>\<rparr>)
   \<and> map m_sessionId (messages (store (fst (message_send quiet gen2 ''c2'' ''bob''
        (Some \<lparr>p_recipientId = Some ''alice'', p_content = Some ''yo'', p_sessionId = None\<rparr>)
        (fst (message_send quiet gen1 ''c1'' ''alice''
           (Some \<lparr>p_recipientId = Some ''bob'', p_content = Some ''hi'', p_sessionId = None\<rparr>)
           alice_online))))))
     = [''s1'', ''s1'']
   \<and> map cs_id (chatSessions (store (fst (message_send quiet gen2 ''c2'' ''bob''
        (Some \<lparr>p_recipientId = Some ''alice'', p_content = Some ''yo'', p_sessionId = None\<rparr>)
        (fst (message_send quiet gen1 ''c1'' ''alice''
           (Some \<lparr>p_recipientId = Some ''bob'', p_content = Some ''hi'', p_sessionId = None\<rparr>)
           alice_online))))))
     = [''s1'']"
proof -
  have ne: "''bob'' \<noteq> ''alice''" "''bob'' \<noteq> []"
    by simp_all
  have first: "sessions_POST quiet gen1 (Some ''bob'') (Some ''alice'') seeded
     = ((200, Session alice_bob), seeded\<lparr>chatSessions := [alice_bob]\<rparr>)"
    by (simp add: sessions_POST_def router_defs fixture_defs)
  have sfirst: "find_or_create_session quiet gen1 ''bob'' ''alice'' None alice_online
     = Inr (Some alice_bob, alice_online\<lparr>store := seeded\<lparr>chatSessions := [alice_bob]\<rparr>\<rparr>)"
    by (simp add: router_defs fixture_defs)
  have sends: "message_send quiet gen2 ''c2'' ''bob''
        (Some \<lparr>p_recipientId = Some ''alice'', p_content = Some ''yo'', p_sessionId = None\<rparr>)
        (fst (message_send quiet gen1 ''c1'' ''alice''
           (Some \<lparr>p_recipientId = Some ''bob'', p_content = Some ''hi'', p_sessionId = None\<rparr>)
           alice_online))
     = (alice_online\<lparr>store := seeded\<lparr>
          chatSessions := [alice_bob\<lparr>updatedAt := 22\<rparr>],
          messages := [said ''m1'' ''hi'' ''alice'' ''bob'' 11,
                       said ''m2'' ''yo'' ''bob'' ''alice'' 21]\<rparr>\<rparr>,
        deliver ''c2'' ''alice''
          (messageData (said ''m2'' ''yo'' ''bob'' ''alice'' 21) (select_user bob)
             (select_user alice)) alice_online)"
    by (simp add: router_defs fixture_defs)
  from resolve_swapped_same_session [OF ne, where gen = gen1 and d = seeded and c = alice_bob
      and d' = "seeded\<lparr>chatSessions := [alice_bob]\<rparr>" and gen' = gen2 and s = alice_online
      and s' = "alice_online\<lparr>store := seeded\<lparr>chatSessions := [alice_bob]\<rparr>\<rparr>"] first sfirst
  have "sessions_POST quiet gen2 (Some ''alice'') (Some ''bob'')
          (seeded\<lparr>chatSessions := [alice_bob]\<rparr>)
          = ((200, Session alice_bob), seeded\<lparr>chatSessions := [alice_bob]\<rparr>)
      \<and> find_or_create_session quiet gen2 ''alice'' ''bob'' None
          (alice_online\<lparr>store := seeded\<lparr>chatSessions := [alice_bob]\<rparr>\<rparr>)
          = Inr (Some alice_bob, alice_online\<lparr>store := seeded\<lparr>chatSessions := [alice_bob]\<rparr>\<rparr>)"
    by blast
  then show ?thesis
    using first sfirst by (simp add: sends said_def alice_bob_def)
qed

section \<open>Paged fetch of a session\<close>

lemma totalPages_ceiling:
  assumes "1 \<le> limit"
  shows "\<exists>tp. totalPages n limit = Some tp \<and> int n \<le> tp * limit \<and> (tp - 1) * limit < int n"
proof -
  let ?x = "real n / real_of_int limit"
  have pos: "0 < real_of_int limit" using assms by simp
  have xl: "?x * real_of_int limit = real n"
    using pos by simp
  have "?x \<le> of_int \<lceil>?x\<rceil>" by (rule le_of_int_ceiling)
  then have "?x * real_of_int limit \<le> of_int \<lceil>?x\<rceil> * real_of_int limit"
    using pos by (intro mult_right_mono) simp_all
  then have "real n \<le> of_int \<lceil>?x\<rceil> * real_of_int limit"
    using xl by simp
  then have a: "int n \<le> \<lceil>?x\<rceil> * limit"
    by (metis of_int_le_iff of_int_mult of_int_of_nat_eq)
  have "of_int \<lceil>?x\<rceil> - 1 < ?x" by linarith
  then have "(of_int \<lceil>?x\<rceil> - 1) * real_of_int limit < ?x * real_of_int limit"
    using pos by (intro mult_strict_right_mono) simp_all
  then have "(of_int \<lceil>?x\<rceil> - 1) * real_of_int limit < real n"
    using xl by simp
  then have "real_of_int ((\<lceil>?x\<rceil> - 1) * limit) < real_of_int (int n)"
    by simp
  then have b: "(\<lceil>?x\<rceil> - 1) * limit < int n"
    by (simp only: of_int_less_iff)
  show ?thesis using a b assms by (simp add: totalPages_def)
qed

lemma sorted_session_messages: "sorted (map createdAt (session_messages i d))"
  by (simp add: session_messages_def)

lemma mset_session_messages:
  "mset (session_messages i d) = filter_mset (\<lambda>m. m_sessionId m = i) (mset (messages d))"
  by (simp add: session_messages_def)

lemma sorted_page: "sorted (map f xs) \<Longrightarrow> sorted (map f (take n (drop k xs)))"
  by (simp add: take_map [symmetric] drop_map [symmetric] sorted_wrt_take sorted_wrt_drop)

lemma skip_take_narrow:
  assumes "0 \<le> skip" and "skip < 2 ^ 31" and "0 \<le> limit" and "limit < 2 ^ 31"
  shows "skip_take wide skip limit xs = Inr (take (nat limit) (drop (nat skip) xs))"
  using assms by (simp add: skip_take_def fits32_def fits64_def)

lemma session_GET_page:
  assumes "1 \<le> page" and "1 \<le> limit"
    and "limit < 2 ^ 31" and "(page - 1) * limit < 2 ^ 31"
    and "chatSession_findUnique_id i (others 0 d) = Some c"
    and "participant userId c"
  shows "session_GET wide others (Some userId) i (Some page) (Some limit) d =
     (200, Session_page c
        (take (nat limit) (drop (nat ((page - 1) * limit)) (session_messages i (others 0 d))))
        \<lparr>pg_page = page, pg_limit = limit,
         pg_total = message_count i (others 1 (others 0 d)),
         pg_totalPages = totalPages (message_count i (others 1 (others 0 d))) limit\<rparr>)"
proof -
  have nn: "0 \<le> (page - 1) * limit"
    using assms(1,2) by simp
  have st: "skip_take wide ((page - 1) * limit) limit (session_messages i (others 0 d))
      = Inr (take (nat limit) (drop (nat ((page - 1) * limit)) (session_messages i (others 0 d))))"
    using nn assms(4) assms(2,3) by (intro skip_take_narrow) simp_all
  show ?thesis
    using assms(5,6) by (auto simp: session_GET_def st participant_def Let_def)
qed

text \<open>
  C8, as the claim states it, fails for a large \<open>limit\<close>: the route hands \<open>limit\<close> to the
  store as \<^verbatim>\<open>take\<close>, and the store rejects a value that does not fit a 64-bit signed
  integer. A participant's fetch of page 1 with limit \<open>2 ^ 63\<close> of an existing session that
  has messages is answered with status 500 and no page.
\<close>

theorem session_GET_limit_counterexample:
  "(1::int) \<le> 1 \<and> (1::int) \<le> 9223372036854775808
   \<and> chatSession_findUnique_id ''s1'' chatty = Some alice_bob
   \<and> participant ''alice'' alice_bob
   \<and> message_count ''s1'' chatty = 3
   \<and> session_GET wide_empty quiet (Some ''alice'') ''s1'' (Some 1) (Some 9223372036854775808)
        chatty
     = (500, Error ''Failed to fetch chat session'')"
  by (simp add: session_GET_def skip_take_def fits64_def quiet_def message_count_def
      chatSession_findUnique_id_def participant_def fixture_defs)

text \<open>
  C8, amended: a fetch with \<open>page \<ge> 1\<close> and \<open>limit \<ge> 1\<close>, where \<open>limit\<close> and the offset
  \<open>(page - 1) * limit\<close> are below \<open>2 ^ 31\<close>, of an existing session by one of its
  participants answers 200. With \<open>ordered\<close> the messages of the session sorted by creation
  time, oldest first, the page is the \<open>limit\<close> messages of \<open>ordered\<close> from offset
  \<open>(page - 1) * limit\<close> on, fewer where \<open>ordered\<close> ends, in that order; and the reported
  \<open>totalPages\<close> is the least integer \<open>tp\<close> with \<open>cnt \<le> tp * limit\<close>, the ceiling of
  \<open>cnt / limit\<close>, for the number \<open>cnt\<close> of rows of the session in the store when the handler
  counts them.
\<close>

theorem session_GET_pagination:
  assumes "1 \<le> page" and "1 \<le> limit"
    and "limit < 2 ^ 31" and "(page - 1) * limit < 2 ^ 31"
    and "chatSession_findUnique_id i (others 0 d) = Some c"
    and "participant userId c"
    and "r = session_GET wide others (Some userId) i (Some page) (Some limit) d"
    and "ordered = session_messages i (others 0 d)"
    and "skip = nat ((page - 1) * limit)"
    and "cnt = length (filter (\<lambda>m. m_sessionId m = i) (messages (others 1 (others 0 d))))"
  shows "fst r = 200
     \<and> sorted (map createdAt ordered)
     \<and> mset ordered = filter_mset (\<lambda>m. m_sessionId m = i) (mset (messages (others 0 d)))
     \<and> page_of r = take (nat limit) (drop skip ordered)
     \<and> sorted (map createdAt (page_of r))
     \<and> length (page_of r) = min (nat limit) (length ordered - skip)
     \<and> (\<forall>k < length (page_of r). page_of r ! k = ordered ! (skip + k))
     \<and> (\<exists>pg tp. pagination_of r = Some pg \<and> pg_page pg = page \<and> pg_limit pg = limit
           \<and> pg_total pg = cnt \<and> pg_totalPages pg = Some tp
           \<and> int cnt \<le> tp * limit \<and> (tp - 1) * limit < int cnt)"
proof -
  have cnt: "cnt = message_count i (others 1 (others 0 d))"
    by (simp add: assms(10) message_count_def)
  have r: "r = (200, Session_page c (take (nat limit) (drop skip ordered))
        \<lparr>pg_page = page, pg_limit = limit, pg_total = cnt,
         pg_totalPages = totalPages cnt limit\<rparr>)"
    unfolding assms(7-9) cnt using assms(1-6) by (rule session_GET_page)
  have p: "page_of r = take (nat limit) (drop skip ordered)"
    by (simp add: r page_of_def)
  have s: "sorted (map createdAt ordered)"
    unfolding assms(8) by (rule sorted_session_messages)
  have m: "mset ordered = filter_mset (\<lambda>m. m_sessionId m = i) (mset (messages (others 0 d)))"
    unfolding assms(8) by (rule mset_session_messages)
  have sp: "sorted (map createdAt (page_of r))"
    unfolding p using s by (rule sorted_page)
  have len: "length (page_of r) = min (nat limit) (length ordered - skip)"
    by (simp add: p min.commute)
  have nth: "\<forall>k < length (page_of r). page_of r ! k = ordered ! (skip + k)"
    by (auto simp: p)
  obtain tp where tp: "totalPages cnt limit = Some tp" "int cnt \<le> tp * limit"
      "(tp - 1) * limit < int cnt"
    using totalPages_ceiling [OF assms(2), of cnt] by blast
  have pg: "\<exists>pg tp. pagination_of r = Some pg \<and> pg_page pg = page \<and> pg_limit pg = limit
           \<and> pg_total pg = cnt \<and> pg_totalPages pg = Some tp
           \<and> int cnt \<le> tp * limit \<and> (tp - 1) * limit < int cnt"
    using tp by (simp add: r pagination_of_def)
  have st: "fst r = 200" by (simp add: r)
  from st s m p sp len nth pg show ?thesis by blast
qed

theorem session_GET_pagination_witness:
  "page_of (session_GET wide_empty quiet (Some ''alice'') ''s1'' (Some 2) (Some 2) chatty)
     = [\<lparr>m_id = ''m3'', m_content = ''c'', senderId = ''alice'', recipientId = ''bob'',
         m_sessionId = ''s1'', isAiMessage = False, createdAt = 30\<rparr>]
   \<and> page_of (session_GET wide_empty quiet (Some ''alice'') ''s1'' (Some 1) (Some 2) chatty)
     = [\<lparr>m_id = ''m1'', m_content = ''a'', senderId = ''alice'', recipientId = ''bob'',
         m_sessionId = ''s1'', isAiMessage = False, createdAt = 11\<rparr>,
        \<lparr>m_id = ''m2'', m_content = ''b'', senderId = ''bob'', recipientId = ''alice'',
         m_sessionId = ''s1'', isAiMessage = False, createdAt = 20\<rparr>]
   \<and> pagination_of (session_GET wide_empty quiet (Some ''alice'') ''s1'' (Some 2) (Some 2) chatty)
     = Some \<lparr>pg_page = 2, pg_limit = 2, pg_total = 3, pg_totalPages = Some 2\<rparr>"
proof -
  have pl: "(1::int) \<le> 2" by simp
  have p1: "(1::int) \<le> 1" by simp
  have b: "(2::int) < 2 ^ 31" by simp
  have o2: "((2::int) - 1) * 2 < 2 ^ 31" by simp
  have o1: "((1::int) - 1) * 2 < 2 ^ 31" by simp
  have f: "chatSession_findUnique_id ''s1'' (quiet 0 chatty) = Some alice_bob"
    by (simp add: chatSession_findUnique_id_def quiet_def fixture_defs)
  have m: "participant ''alice'' alice_bob"
    by (simp add: participant_def alice_bob_def)
  have o: "session_messages ''s1'' (quiet 0 chatty) =
      [said ''m1'' ''a'' ''alice'' ''bob'' 11, said ''m2'' ''b'' ''bob'' ''alice'' 20,
       said ''m3'' ''c'' ''alice'' ''bob'' 30]"
    by (simp add: session_messages_def quiet_def fixture_defs)
  have n: "length (filter (\<lambda>m. m_sessionId m = ''s1'') (messages (quiet 1 (quiet 0 chatty)))) = 3"
    by (simp add: quiet_def fixture_defs)
  from session_GET_pagination [where others = quiet and wide = wide_empty,
      OF pl pl b o2 f m refl refl refl refl]
  obtain pg tp where second:
      "page_of (session_GET wide_empty quiet (Some ''alice'') ''s1'' (Some 2) (Some 2) chatty)
         = take (nat 2) (drop (nat ((2 - 1) * 2)) (session_messages ''s1'' (quiet 0 chatty)))"
      "pagination_of (session_GET wide_empty quiet (Some ''alice'') ''s1'' (Some 2) (Some 2) chatty)
         = Some pg"
      "pg_page pg = 2" "pg_limit pg = 2"
      "pg_total pg = length (filter (\<lambda>m. m_sessionId m = ''s1'')
         (messages (quiet 1 (quiet 0 chatty))))"
      "pg_totalPages pg = Some tp"
      "int (length (filter (\<lambda>m. m_sessionId m = ''s1'') (messages (quiet 1 (quiet 0 chatty)))))
         \<le> tp * 2"
      "(tp - 1) * 2
         < int (length (filter (\<lambda>m. m_sessionId m = ''s1'') (messages (quiet 1 (quiet 0 chatty)))))"
    by blast
  from session_GET_pagination [where others = quiet and wide = wide_empty,
      OF p1 pl b o1 f m refl refl refl refl]
  have first:
      "page_of (session_GET wide_empty quiet (Some ''alice'') ''s1'' (Some 1) (Some 2) chatty)
         = take (nat 2) (drop (nat ((1 - 1) * 2)) (session_messages ''s1'' (quiet 0 chatty)))"
    by blast
  have "tp = 2"
    using second(7,8) unfolding n by simp
  then have "pg = \<lparr>pg_page = 2, pg_limit = 2, pg_total = 3, pg_totalPages = Some 2\<rparr>"
    using second(3-6) unfolding n by (cases pg) simp
  then show ?thesis
    using first second(1,2) by (simp add: o said_def)
qed

end
